theory Spec2Isabelle
  imports Complex_Main
begin

section \<open>Vectors and matrices\<close>

text \<open>
  The curve plotter of \<^verbatim>\<open>curveplot.cpp\<close> computes in C++ \<^verbatim>\<open>double\<close> and stores
  vertices as \<^verbatim>\<open>float\<close>.  Both are modelled by \<^typ>\<open>real\<close>: arithmetic is exact, there
  is no rounding, no overflow to infinity and no NaN, and the cast from double to
  float is the identity.  Eigen's fixed-size vectors are tuples; a 4x4 matrix is the
  tuple of its four columns, as the source fills it with \<^verbatim>\<open>coeff.col(k)\<close>.
\<close>

type_synonym Vector3d = "real \<times> real \<times> real"
type_synonym Vector4d = "real \<times> real \<times> real \<times> real"
type_synonym Vector4f = "real \<times> real \<times> real \<times> real"
type_synonym Matrix4d = "Vector4d \<times> Vector4d \<times> Vector4d \<times> Vector4d"

fun zeroExtend :: "Vector3d \<Rightarrow> Vector4d" where
  "zeroExtend (x, y, z) = (x, y, z, 0)"

fun head3 :: "Vector4d \<Rightarrow> Vector3d" where
  "head3 (x, y, z, w) = (x, y, z)"


fun zcoord4 :: "Vector4d \<Rightarrow> real" where
  "zcoord4 (x, y, z, w) = z"


fun dot4 :: "Vector4d \<Rightarrow> Vector4d \<Rightarrow> real" where
  "dot4 (a1, a2, a3, a4) (b1, b2, b3, b4) = a1 * b1 + a2 * b2 + a3 * b3 + a4 * b4"

fun scale3 :: "Vector3d \<Rightarrow> real \<Rightarrow> Vector3d" where
  "scale3 (a1, a2, a3) k = (a1 * k, a2 * k, a3 * k)"

fun add4 :: "Vector4d \<Rightarrow> Vector4d \<Rightarrow> Vector4d" where
  "add4 (a1, a2, a3, a4) (b1, b2, b3, b4) = (a1 + b1, a2 + b2, a3 + b3, a4 + b4)"

fun sub4 :: "Vector4d \<Rightarrow> Vector4d \<Rightarrow> Vector4d" where
  "sub4 (a1, a2, a3, a4) (b1, b2, b3, b4) = (a1 - b1, a2 - b2, a3 - b3, a4 - b4)"

fun scale4 :: "real \<Rightarrow> Vector4d \<Rightarrow> Vector4d" where
  "scale4 k (a1, a2, a3, a4) = (k * a1, k * a2, k * a3, k * a4)"

fun norm4 :: "Vector4d \<Rightarrow> real" where
  "norm4 (a1, a2, a3, a4) = sqrt (a1 * a1 + a2 * a2 + a3 * a3 + a4 * a4)"

fun cwiseAbs4 :: "Vector4d \<Rightarrow> Vector4d" where
  "cwiseAbs4 (a1, a2, a3, a4) = (\<bar>a1\<bar>, \<bar>a2\<bar>, \<bar>a3\<bar>, \<bar>a4\<bar>)"

fun cwiseAbs :: "Matrix4d \<Rightarrow> Matrix4d" where
  "cwiseAbs (c0, c1, c2, c3) = (cwiseAbs4 c0, cwiseAbs4 c1, cwiseAbs4 c2, cwiseAbs4 c3)"

text \<open>Matrix times column vector: the linear combination of the columns.\<close>

fun mat_vec :: "Matrix4d \<Rightarrow> Vector4d \<Rightarrow> Vector4d" where
  "mat_vec (c0, c1, c2, c3) (a, b, c, d) =
     add4 (add4 (add4 (scale4 a c0) (scale4 b c1)) (scale4 c c2)) (scale4 d c3)"

text \<open>\<^verbatim>\<open>coeff * Vector4d(1, t, t*t, t*t*t)\<close>, the point of the cubic at parameter \<open>t\<close>.\<close>

definition cubicPoint :: "Matrix4d \<Rightarrow> real \<Rightarrow> Vector4d" where
  "cubicPoint coeff u = mat_vec coeff (1, u, u * u, u * u * u)"

definition cubicHermiteCoefficients ::
  "Vector4d \<Rightarrow> Vector4d \<Rightarrow> Vector4d \<Rightarrow> Vector4d \<Rightarrow> Matrix4d" where
  "cubicHermiteCoefficients p0 p1 v0 v1 =
     (p0,
      v0,
      sub4 (scale4 3 (sub4 p1 p0)) (add4 (scale4 2 v0) v1),
      add4 (scale4 2 (sub4 p0 p1)) (add4 v1 v0))"

section \<open>The sample store\<close>

record CurvePlotSample =
  sample_t :: real
  sample_position :: Vector3d
  sample_velocity :: Vector3d
  sample_boundingRadius :: real

text \<open>
  The bounding radius of the segment between two adjacent samples, as both branches
  of \<^verbatim>\<open>CurvePlot::addSample\<close> compute it: \<open>s0\<close> is the earlier sample, \<open>s1\<close> the later.
\<close>

definition segmentCoeff :: "CurvePlotSample \<Rightarrow> CurvePlotSample \<Rightarrow> Matrix4d" where
  "segmentCoeff s0 s1 =
     (let dt = sample_t s1 - sample_t s0
      in cubicHermiteCoefficients
           (zeroExtend (sample_position s0))
           (zeroExtend (sample_position s1))
           (zeroExtend (scale3 (sample_velocity s0) dt))
           (zeroExtend (scale3 (sample_velocity s1) dt)))"

definition segmentExtents :: "CurvePlotSample \<Rightarrow> CurvePlotSample \<Rightarrow> Vector4d" where
  "segmentExtents s0 s1 = mat_vec (cwiseAbs (segmentCoeff s0 s1)) (0, 1, 1, 1)"

text \<open>
  \<^verbatim>\<open>m_samples\<close> is a \<^verbatim>\<open>std::deque\<close>; the model is a list, front first.
  \<^verbatim>\<open>push_back\<close> appends, \<^verbatim>\<open>push_front\<close> conses.
\<close>

definition addSample :: "CurvePlotSample \<Rightarrow> CurvePlotSample list \<Rightarrow> CurvePlotSample list" where
  "addSample sample m_samples =
     (if m_samples = [] \<or> sample_t sample > sample_t (last m_samples) then
        (let ms = m_samples @ [sample] in
         if length ms > 1 then
           (let lastSample = ms ! (length ms - 2) in
            ms[length ms - 1 := (ms ! (length ms - 1))
                 \<lparr>sample_boundingRadius := norm4 (segmentExtents lastSample sample)\<rparr>])
         else ms)
      else if sample_t sample < sample_t (hd m_samples) then
        (let ms = sample # m_samples in
         if length ms > 1 then
           (let nextSample = ms ! 1 in
            ms[1 := (ms ! 1)
                 \<lparr>sample_boundingRadius := norm4 (segmentExtents sample nextSample)\<rparr>])
         else ms)
      else m_samples)"

fun removeSamplesBefore :: "real \<Rightarrow> CurvePlotSample list \<Rightarrow> CurvePlotSample list" where
  "removeSamplesBefore u [] = []"
| "removeSamplesBefore u (s # ss) =
     (if sample_t s < u then removeSamplesBefore u ss else s # ss)"

function removeSamplesAfter :: "real \<Rightarrow> CurvePlotSample list \<Rightarrow> CurvePlotSample list" where
  "removeSamplesAfter u ss =
     (if ss \<noteq> [] \<and> sample_t (last ss) > u then removeSamplesAfter u (butlast ss) else ss)"
  by pat_completeness auto
termination
  by (relation "measure (\<lambda>(u, ss). length ss)") auto

declare removeSamplesAfter.simps [simp del]

text \<open>
  The stores a \<^verbatim>\<open>CurvePlot\<close> object can hold: \<^verbatim>\<open>m_samples\<close> is private, starts empty
  and is changed by these three member functions only.
\<close>

inductive reachableStore :: "CurvePlotSample list \<Rightarrow> bool" where
  reach_empty: "reachableStore []"
| reach_add: "reachableStore ss \<Longrightarrow> reachableStore (addSample s ss)"
| reach_before: "reachableStore ss \<Longrightarrow> reachableStore (removeSamplesBefore u ss)"
| reach_after: "reachableStore ss \<Longrightarrow> reachableStore (removeSamplesAfter u ss)"

code_pred reachableStore .

definition timesIncreasing :: "CurvePlotSample list \<Rightarrow> bool" where
  "timesIncreasing ss = sorted_wrt (<) (map sample_t ss)"

fun addSamples :: "CurvePlotSample list \<Rightarrow> CurvePlotSample list \<Rightarrow> CurvePlotSample list" where
  "addSamples [] ss = ss"
| "addSamples (s # new) ss = addSamples new (addSample s ss)"


text \<open>Sample data for the concrete instances below.\<close>

definition sampleAt :: "real \<Rightarrow> CurvePlotSample" where
  "sampleAt u = \<lparr>sample_t = u, sample_position = (0, 0, -5), sample_velocity = (0, 0, 0),
                 sample_boundingRadius = 0\<rparr>"

definition movingSample :: "real \<Rightarrow> CurvePlotSample" where
  "movingSample u = \<lparr>sample_t = u, sample_position = (u, 0, -5), sample_velocity = (1, 0, 0),
                     sample_boundingRadius = 0\<rparr>"

section \<open>The view frustum\<close>



text \<open>
  \<^verbatim>\<open>HighPrec_Frustum\<close>: near and far plane and the array of four side-plane normals,
  stored zero-extended to four components.
\<close>

record HighPrec_Frustum =
  m_nearZ :: real
  m_farZ :: real
  m_planeNormals :: "Vector4d \<times> Vector4d \<times> Vector4d \<times> Vector4d"

text \<open>The constructor: \<^verbatim>\<open>m_planeNormals[i] = zeroExtend(planeNormals[i])\<close> for \<open>i < 4\<close>.\<close>

fun mkFrustum :: "real \<Rightarrow> real \<Rightarrow> Vector3d \<times> Vector3d \<times> Vector3d \<times> Vector3d \<Rightarrow> HighPrec_Frustum" where
  "mkFrustum nearZ farZ (n0, n1, n2, n3) =
     \<lparr>m_nearZ = nearZ, m_farZ = farZ,
      m_planeNormals = (zeroExtend n0, zeroExtend n1, zeroExtend n2, zeroExtend n3)\<rparr>"

fun planeNormal :: "HighPrec_Frustum \<Rightarrow> nat \<Rightarrow> Vector4d" where
  "planeNormal f i =
     (case m_planeNormals f of (n0, n1, n2, n3) \<Rightarrow>
        if i = 0 then n0 else if i = 1 then n1 else if i = 2 then n2 else n3)"


text \<open>The overload of \<^verbatim>\<open>cullSphere\<close> for a \<^verbatim>\<open>Vector4d\<close> centre, the one the renderer calls.\<close>

definition cullSphere :: "HighPrec_Frustum \<Rightarrow> Vector4d \<Rightarrow> real \<Rightarrow> bool" where
  "cullSphere f center radius =
     (zcoord4 center - radius > m_nearZ f \<or>
      zcoord4 center + radius < m_farZ f \<or>
      dot4 center (planeNormal f 0) < - radius \<or>
      dot4 center (planeNormal f 1) < - radius \<or>
      dot4 center (planeNormal f 2) < - radius \<or>
      dot4 center (planeNormal f 3) < - radius)"


section \<open>The vertex emitter\<close>

text \<open>
  \<^verbatim>\<open>HighPrec_VertexBuffer\<close> with \<^verbatim>\<open>USE_VERTEX_BUFFER\<close> set, as the file is compiled.
  The \<^verbatim>\<open>unsigned int\<close> members are natural numbers; the array \<^verbatim>\<open>data\<close> is a function
  from slot index to vertex.  The OpenGL side is reduced to what the properties below observe:
  the field \<open>drawn\<close> lists the \<^verbatim>\<open>glDrawArrays\<close> submissions made so far, each with
  the positions the position attribute fetches for it.  Binding state (\<^verbatim>\<open>vbobj\<close>,
  the attribute arrays) is left out: \<^verbatim>\<open>glBufferSubData\<close> copies the slots below
  \<^verbatim>\<open>2 * currentPosition\<close> right before the draws, so the draws read \<^verbatim>\<open>data\<close>.
\<close>

record Vertex =
  vertex_position :: Vector4f
  vertex_color :: Vector4f
  vertex_scale :: real

datatype Topology = GL_LINE_STRIP | GL_TRIANGLE_STRIP

record DrawCall =
  dc_mode :: Topology
  dc_first :: nat
  dc_count :: nat
  dc_positions :: "Vector4f list"

record HighPrec_VertexBuffer =
  currentPosition :: nat
  capacity :: nat
  data :: "nat \<Rightarrow> Vertex"
  currentStripLength :: nat
  stripLengths :: "nat list"
  color :: Vector4f
  lineAsTriangles :: bool
  drawn :: "DrawCall list"

text \<open>
  The constructor.  \<^verbatim>\<open>new Vertex[(capacity + 1) * 2]\<close> and the member \<^verbatim>\<open>color\<close> are
  not initialised: their first content is a parameter.
\<close>

definition newVertexBuffer :: "(nat \<Rightarrow> Vertex) \<Rightarrow> Vector4f \<Rightarrow> HighPrec_VertexBuffer" where
  "newVertexBuffer memory c =
     \<lparr>currentPosition = 0, capacity = 4096, data = memory, currentStripLength = 0,
      stripLengths = [], color = c, lineAsTriangles = False, drawn = []\<rparr>"

definition vbuf_setup :: "bool \<Rightarrow> HighPrec_VertexBuffer \<Rightarrow> HighPrec_VertexBuffer" where
  "vbuf_setup lat vb =
     vb\<lparr>stripLengths := [], currentStripLength := 0, currentPosition := 0,
        lineAsTriangles := lat\<rparr>"

definition vbuf_finish :: "HighPrec_VertexBuffer \<Rightarrow> HighPrec_VertexBuffer" where
  "vbuf_finish vb = vb"

definition vbuf_createVertexBuffer :: "HighPrec_VertexBuffer \<Rightarrow> HighPrec_VertexBuffer" where
  "vbuf_createVertexBuffer vb = vb"

definition vbuf_setColor :: "Vector4f \<Rightarrow> HighPrec_VertexBuffer \<Rightarrow> HighPrec_VertexBuffer" where
  "vbuf_setColor aColor vb = vb\<lparr>color := aColor\<rparr>"

definition vbuf_begin :: "HighPrec_VertexBuffer \<Rightarrow> HighPrec_VertexBuffer" where
  "vbuf_begin vb = vb"

text \<open>
  What one \<^verbatim>\<open>glDrawArrays\<close> of \<^verbatim>\<open>flush\<close> fetches.  \<^verbatim>\<open>setup\<close> sets the stride to two
  vertices for plain lines, so vertex \<open>j\<close> of the draw is slot \<open>2 * j\<close>; for triangle
  strips the stride is one vertex and the draw covers both slots of each point.
\<close>

definition drawStrip :: "bool \<Rightarrow> (nat \<Rightarrow> Vertex) \<Rightarrow> nat \<Rightarrow> nat \<Rightarrow> DrawCall" where
  "drawStrip lat d startIndex lineCount =
     (if lat then
        \<lparr>dc_mode = GL_TRIANGLE_STRIP, dc_first = startIndex * 2, dc_count = lineCount * 2,
         dc_positions = map (\<lambda>j. vertex_position (d j))
                          [startIndex * 2 ..< startIndex * 2 + lineCount * 2]\<rparr>
      else
        \<lparr>dc_mode = GL_LINE_STRIP, dc_first = startIndex, dc_count = lineCount,
         dc_positions = map (\<lambda>j. vertex_position (d (2 * j)))
                          [startIndex ..< startIndex + lineCount]\<rparr>)"

text \<open>The loop of \<^verbatim>\<open>flush\<close> over \<^verbatim>\<open>stripLengths\<close>.\<close>

fun drawStrips :: "bool \<Rightarrow> (nat \<Rightarrow> Vertex) \<Rightarrow> nat \<Rightarrow> nat list \<Rightarrow> DrawCall list" where
  "drawStrips lat d startIndex [] = []"
| "drawStrips lat d startIndex (lineCount # rest) =
     drawStrip lat d startIndex lineCount # drawStrips lat d (startIndex + lineCount + 1) rest"

text \<open>
  \<^verbatim>\<open>end\<close> and \<^verbatim>\<open>flush\<close> call each other, each with the flag that stops the other
  from calling back.  \<open>vbuf_end_strip\<close> is the body of \<^verbatim>\<open>end\<close> up to its last
  \<^verbatim>\<open>if\<close>, which is all that \<^verbatim>\<open>end(false)\<close> runs.  \<^verbatim>\<open>currentPosition -= currentStripLength\<close>
  is unsigned and wraps; \<^verbatim>\<open>data[index - 4]\<close> has a signed index, which is not below zero
  as long as \<^verbatim>\<open>currentStripLength <= currentPosition\<close>.
\<close>

definition vbuf_end_strip :: "HighPrec_VertexBuffer \<Rightarrow> HighPrec_VertexBuffer" where
  "vbuf_end_strip vb =
     (if currentStripLength vb > 1 then
        (let index = currentPosition vb * 2;
             d0 = data vb;
             d1 = d0(index := (d0 index)\<lparr>vertex_position := vertex_position (d0 (index - 4))\<rparr>);
             d2 = d1(index + 1 := (d1 (index + 1))\<lparr>vertex_position := vertex_position (d1 (index - 3))\<rparr>);
             d3 = d2(index - 2 := (d2 (index - 2))\<lparr>vertex_scale := - vertex_scale (d2 (index - 2))\<rparr>);
             d4 = d3(index - 1 := (d3 (index - 1))\<lparr>vertex_scale := - vertex_scale (d3 (index - 1))\<rparr>)
         in vb\<lparr>data := d4,
               currentPosition := currentPosition vb + 1,
               stripLengths := stripLengths vb @ [currentStripLength vb],
               currentStripLength := 0\<rparr>)
      else
        vb\<lparr>currentPosition :=
              (if currentStripLength vb \<le> currentPosition vb
               then currentPosition vb - currentStripLength vb
               else currentPosition vb + 2 ^ 32 - currentStripLength vb),
           currentStripLength := 0\<rparr>)"

definition vbuf_flush :: "bool \<Rightarrow> HighPrec_VertexBuffer \<Rightarrow> HighPrec_VertexBuffer" where
  "vbuf_flush endIfNeeded vb =
     (if currentPosition vb > 0 then
        (let vb1 = (if endIfNeeded \<and> currentStripLength vb > 1 then vbuf_end_strip vb else vb)
         in vb1\<lparr>drawn := drawn vb1 @ drawStrips (lineAsTriangles vb1) (data vb1) 0 (stripLengths vb1),
                currentPosition := 0,
                stripLengths := [],
                currentStripLength := 0\<rparr>)
      else vb\<lparr>currentStripLength := 0\<rparr>)"

definition vbuf_end :: "bool \<Rightarrow> HighPrec_VertexBuffer \<Rightarrow> HighPrec_VertexBuffer" where
  "vbuf_end flushIfNeeded vb =
     (let vb1 = vbuf_end_strip vb
      in if flushIfNeeded \<and> currentPosition vb1 = capacity vb1 then vbuf_flush False vb1 else vb1)"

text \<open>\<^verbatim>\<open>vertex(const Eigen::Vector4d& v, const Eigen::Vector4f& color)\<close>.\<close>

definition vbuf_vertex_color ::
  "Vector4d \<Rightarrow> Vector4f \<Rightarrow> HighPrec_VertexBuffer \<Rightarrow> HighPrec_VertexBuffer" where
  "vbuf_vertex_color v c vb =
     (let pos = v;
          index = currentPosition vb * 2;
          d1 = (data vb)(index := \<lparr>vertex_position = pos, vertex_color = c, vertex_scale = - 1 / 2\<rparr>);
          d2 = d1(index + 1 := \<lparr>vertex_position = pos, vertex_color = c, vertex_scale = 1 / 2\<rparr>);
          vb1 = vb\<lparr>data := d2,
                   currentPosition := currentPosition vb + 1,
                   currentStripLength := currentStripLength vb + 1\<rparr>
      in if currentPosition vb1 = capacity vb1 then
           (let vb2 = vbuf_flush True vb1;
                e1 = (data vb2)(0 := \<lparr>vertex_position = pos, vertex_color = c, vertex_scale = - 1 / 2\<rparr>);
                e2 = e1(1 := \<lparr>vertex_position = pos, vertex_color = c, vertex_scale = 1 / 2\<rparr>)
            in vb2\<lparr>data := e2, currentPosition := 1, currentStripLength := 1\<rparr>)
         else vb1)"

text \<open>\<^verbatim>\<open>vertex(const Eigen::Vector4d& v)\<close>: the same with the colour set by \<^verbatim>\<open>setColor\<close>.\<close>

definition vbuf_vertex :: "Vector4d \<Rightarrow> HighPrec_VertexBuffer \<Rightarrow> HighPrec_VertexBuffer" where
  "vbuf_vertex v vb = vbuf_vertex_color v (color vb) vb"






text \<open>The points in the buffer below the cursor, and the strips submitted so far.\<close>

definition generation :: "HighPrec_VertexBuffer \<Rightarrow> Vector4f list" where
  "generation vb = map (\<lambda>j. vertex_position (data vb (2 * j))) [0 ..< currentPosition vb]"


definition zeroMemory :: "nat \<Rightarrow> Vertex" where
  "zeroMemory j = \<lparr>vertex_position = (0, 0, 0, 0), vertex_color = (0, 0, 0, 0), vertex_scale = 0\<rparr>"


text \<open>
  The slots that recorded strips take: each strip is followed by one more point, the
  copy that \<^verbatim>\<open>end\<close> appends.
\<close>

fun stripSlots :: "nat list \<Rightarrow> nat" where
  "stripSlots [] = 0"
| "stripSlots (n # ns) = Suc n + stripSlots ns"







text \<open>A buffer holding one open strip of two points.\<close>

definition twoPointStrip :: HighPrec_VertexBuffer where
  "twoPointStrip =
     vbuf_vertex (2, 0, -5, 1)
       (vbuf_vertex (1, 0, -5, 1) (vbuf_setup False (newVertexBuffer zeroMemory (1, 1, 1, 1))))"

section \<open>The adaptive curve renderer\<close>

text \<open>
  \<^verbatim>\<open>SubdivisionFactor\<close> and \<^verbatim>\<open>InvSubdivisionFactor\<close>.
\<close>

definition SubdivisionFactor :: nat where
  "SubdivisionFactor = 8"

definition InvSubdivisionFactor :: real where
  "InvSubdivisionFactor = 1 / real SubdivisionFactor"

text \<open>
  \<^verbatim>\<open>HighPrec_RenderContext\<close>.  Its reference \<^verbatim>\<open>m_vbuf\<close> to the one global vertex buffer is
  modelled by passing the buffer through every call.
\<close>

record HighPrec_RenderContext =
  m_viewFrustum :: HighPrec_Frustum
  m_subdivisionThreshold :: real

text \<open>
  \<^verbatim>\<open>renderCubic\<close> recurses inside its \<^verbatim>\<open>for\<close> loop and the source sets no depth limit,
  so the function is partial: \<open>None\<close> stands for a call that does not return.
  \<open>renderCubicLoop\<close> is the \<^verbatim>\<open>for\<close> loop from iteration \<open>i\<close> on, with the locals
  \<^verbatim>\<open>dt\<close>, \<^verbatim>\<open>segmentBoundingRadius\<close>, \<^verbatim>\<open>lastP\<close> and \<^verbatim>\<open>restartCurve\<close> and the buffer as
  arguments.  The recursive call \<^verbatim>\<open>renderCubic(restartCurve, coeff, t - dt, t,
  segmentBoundingRadius, depth + 1)\<close> is the loop started at \<open>i = 1\<close> with the locals
  that call computes on entry.  \<^verbatim>\<open>depth\<close> is used by the debugging code only, which is
  compiled out.
\<close>

partial_function (option) renderCubicLoop ::
  "HighPrec_RenderContext \<Rightarrow> Matrix4d \<Rightarrow> real \<Rightarrow> real \<Rightarrow> real \<Rightarrow> int \<Rightarrow> nat \<Rightarrow> Vector4d \<Rightarrow> bool
     \<Rightarrow> HighPrec_VertexBuffer \<Rightarrow> (bool \<times> HighPrec_VertexBuffer) option" where
  "renderCubicLoop rc coeff t0 dt segmentBoundingRadius depth i lastP restartCurve vb =
     (if i \<le> SubdivisionFactor then
        (let t = t0 + dt * real i;
             p = cubicPoint coeff t;
             minDistance = max (- m_nearZ (m_viewFrustum rc)) (\<bar>zcoord4 p\<bar> - segmentBoundingRadius)
         in if segmentBoundingRadius \<ge> m_subdivisionThreshold rc * minDistance then
              (if cullSphere (m_viewFrustum rc) p segmentBoundingRadius then
                 renderCubicLoop rc coeff t0 dt segmentBoundingRadius depth (i + 1) p True
                   (if \<not> restartCurve then vbuf_end True vb else vb)
               else
                 Option.bind
                   (renderCubicLoop rc coeff (t - dt) ((t - (t - dt)) * InvSubdivisionFactor)
                      (segmentBoundingRadius * InvSubdivisionFactor) (depth + 1) 1
                      (cubicPoint coeff (t - dt)) restartCurve vb)
                   (\<lambda>(restartCurve', vb').
                      renderCubicLoop rc coeff t0 dt segmentBoundingRadius depth (i + 1) p
                        restartCurve' vb'))
            else
              renderCubicLoop rc coeff t0 dt segmentBoundingRadius depth (i + 1) p False
                (vbuf_vertex p
                   (if restartCurve then vbuf_vertex lastP (vbuf_begin vb) else vb)))
      else Some (restartCurve, vb))"

declare renderCubicLoop.simps [code]

definition renderCubic ::
  "HighPrec_RenderContext \<Rightarrow> bool \<Rightarrow> Matrix4d \<Rightarrow> real \<Rightarrow> real \<Rightarrow> real \<Rightarrow> int
     \<Rightarrow> HighPrec_VertexBuffer \<Rightarrow> (bool \<times> HighPrec_VertexBuffer) option" where
  "renderCubic rc restartCurve coeff t0 t1 curveBoundingRadius depth vb =
     (let dt = (t1 - t0) * InvSubdivisionFactor;
          segmentBoundingRadius = curveBoundingRadius * InvSubdivisionFactor;
          lastP = cubicPoint coeff t0
      in renderCubicLoop rc coeff t0 dt segmentBoundingRadius depth 1 lastP restartCurve vb)"

text \<open>\<^verbatim>\<open>std::clamp(v, lo, hi)\<close>.\<close>

definition std_clamp :: "real \<Rightarrow> real \<Rightarrow> real \<Rightarrow> real" where
  "std_clamp v lo hi = (if v < lo then lo else if hi < v then hi else v)"

text \<open>\<^verbatim>\<open>Eigen::Vector4f(color.x(), color.y(), color.z(), color.w() * float(opacity))\<close>.\<close>

fun fadedColor :: "Vector4f \<Rightarrow> real \<Rightarrow> Vector4f" where
  "fadedColor (r, g, b, a) opacity = (r, g, b, a * opacity)"

text \<open>
  \<^verbatim>\<open>renderCubicFaded\<close>, in the same way; the loop carries \<^verbatim>\<open>lastOpacity\<close> as well.
\<close>

partial_function (option) renderCubicFadedLoop ::
  "HighPrec_RenderContext \<Rightarrow> Matrix4d \<Rightarrow> real \<Rightarrow> real \<Rightarrow> Vector4f \<Rightarrow> real \<Rightarrow> real \<Rightarrow> real \<Rightarrow> int
     \<Rightarrow> nat \<Rightarrow> Vector4d \<Rightarrow> real \<Rightarrow> bool
     \<Rightarrow> HighPrec_VertexBuffer \<Rightarrow> (bool \<times> HighPrec_VertexBuffer) option" where
  "renderCubicFadedLoop rc coeff t0 dt col fadeStart fadeRate segmentBoundingRadius depth
       i lastP lastOpacity restartCurve vb =
     (if i \<le> SubdivisionFactor then
        (let t = t0 + dt * real i;
             p = cubicPoint coeff t;
             opacity = std_clamp ((t - fadeStart) * fadeRate) 0 1;
             minDistance = max (- m_nearZ (m_viewFrustum rc)) (\<bar>zcoord4 p\<bar> - segmentBoundingRadius)
         in if segmentBoundingRadius \<ge> m_subdivisionThreshold rc * minDistance then
              (if cullSphere (m_viewFrustum rc) p segmentBoundingRadius then
                 renderCubicFadedLoop rc coeff t0 dt col fadeStart fadeRate segmentBoundingRadius
                   depth (i + 1) p opacity True
                   (if \<not> restartCurve then vbuf_end True vb else vb)
               else
                 Option.bind
                   (renderCubicFadedLoop rc coeff (t - dt) ((t - (t - dt)) * InvSubdivisionFactor)
                      col fadeStart fadeRate
                      (segmentBoundingRadius * InvSubdivisionFactor) (depth + 1) 1
                      (cubicPoint coeff (t - dt))
                      (std_clamp (((t - dt) - fadeStart) * fadeRate) 0 1) restartCurve vb)
                   (\<lambda>(restartCurve', vb').
                      renderCubicFadedLoop rc coeff t0 dt col fadeStart fadeRate
                        segmentBoundingRadius depth (i + 1) p opacity restartCurve' vb'))
            else
              renderCubicFadedLoop rc coeff t0 dt col fadeStart fadeRate segmentBoundingRadius
                depth (i + 1) p opacity False
                (vbuf_vertex_color p (fadedColor col opacity)
                   (if restartCurve
                    then vbuf_vertex_color lastP (fadedColor col lastOpacity) (vbuf_begin vb)
                    else vb)))
      else Some (restartCurve, vb))"

declare renderCubicFadedLoop.simps [code]

definition renderCubicFaded ::
  "HighPrec_RenderContext \<Rightarrow> bool \<Rightarrow> Matrix4d \<Rightarrow> real \<Rightarrow> real \<Rightarrow> Vector4f \<Rightarrow> real \<Rightarrow> real \<Rightarrow> real
     \<Rightarrow> int \<Rightarrow> HighPrec_VertexBuffer \<Rightarrow> (bool \<times> HighPrec_VertexBuffer) option" where
  "renderCubicFaded rc restartCurve coeff t0 t1 col fadeStart fadeRate curveBoundingRadius depth vb =
     (let dt = (t1 - t0) * InvSubdivisionFactor;
          segmentBoundingRadius = curveBoundingRadius * InvSubdivisionFactor;
          lastP = cubicPoint coeff t0;
          lastOpacity = std_clamp ((t0 - fadeStart) * fadeRate) 0 1
      in renderCubicFadedLoop rc coeff t0 dt col fadeStart fadeRate segmentBoundingRadius depth
           1 lastP lastOpacity restartCurve vb)"

text \<open>Instances for the concrete runs below.\<close>

definition testFrustum :: HighPrec_Frustum where
  "testFrustum = mkFrustum (-1) (-100) ((0, 0, -1), (0, 0, -1), (0, 0, -1), (0, 0, -1))"

definition testContext :: HighPrec_RenderContext where
  "testContext = \<lparr>m_viewFrustum = testFrustum, m_subdivisionThreshold = 1\<rparr>"

definition freshBuffer :: HighPrec_VertexBuffer where
  "freshBuffer = vbuf_setup False (newVertexBuffer zeroMemory (1, 1, 1, 1))"


text \<open>The straight line from \<open>(0, 0, -5)\<close> to \<open>(8, 0, -5)\<close> at constant speed.\<close>

definition lineCoeff :: Matrix4d where
  "lineCoeff = cubicHermiteCoefficients (0, 0, -5, 1) (8, 0, -5, 1) (8, 0, 0, 0) (8, 0, 0, 0)"

text \<open>The result of a renderer call reduced to the restart flag and the points in the buffer.\<close>

fun bufferedPoints :: "(bool \<times> HighPrec_VertexBuffer) option \<Rightarrow> (bool \<times> Vector4f list) option" where
  "bufferedPoints None = None"
| "bufferedPoints (Some (restartCurve, vb)) = Some (restartCurve, generation vb)"

section \<open>The render entry points\<close>

text \<open>
  \<^verbatim>\<open>Eigen::Affine3d\<close> is not part of the sources at hand.  It is modelled as a 4x4
  matrix; the product of an affine transform with a \<^verbatim>\<open>Vector4d\<close> applies the upper
  three rows and keeps the fourth component of the vector.
\<close>

type_synonym Affine3d = Matrix4d

fun transform :: "Affine3d \<Rightarrow> Vector4d \<Rightarrow> Vector4d" where
  "transform m (x, y, z, w) = (case mat_vec m (x, y, z, w) of (x', y', z', w') \<Rightarrow> (x', y', z', w))"

text \<open>\<^verbatim>\<open>Eigen::Vector4d(v.x(), v.y(), v.z(), w)\<close>.\<close>

fun point4 :: "Vector3d \<Rightarrow> real \<Rightarrow> Vector4d" where
  "point4 (x, y, z) w = (x, y, z, w)"

definition identityTransform :: Affine3d where
  "identityTransform = ((1, 0, 0, 0), (0, 1, 0, 0), (0, 0, 1, 0), (0, 0, 0, 1))"

text \<open>
  The locals that the segment loops of the render functions carry from one iteration to
  the next.  \<open>rl_opacity0\<close> is used by \<^verbatim>\<open>renderFaded\<close> only.
\<close>

record RenderLoopState =
  rl_restartCurve :: bool
  rl_p0 :: Vector4d
  rl_v0 :: Vector4d
  rl_opacity0 :: real
  rl_firstSegment :: bool
  rl_lastSegment :: bool
  rl_vbuf :: HighPrec_VertexBuffer

text \<open>
  The linear search for the first sample of the time-range renders:
  \<^verbatim>\<open>while (startSample < m_samples.size() - 1 && startTime > m_samples[startSample].t)
  startSample++;\<close>
\<close>

function findStartSample :: "CurvePlotSample list \<Rightarrow> real \<Rightarrow> nat \<Rightarrow> nat" where
  "findStartSample m_samples startTime startSample =
     (if startSample < length m_samples - 1 \<and> startTime > sample_t (m_samples ! startSample)
      then findStartSample m_samples startTime (startSample + 1)
      else startSample)"
  by pat_completeness auto
termination
  by (relation "measure (\<lambda>(m_samples, startTime, startSample). length m_samples - startSample)")
     auto

declare findStartSample.simps [simp del]

text \<open>
  One iteration of the segment loop of the time-range \<^verbatim>\<open>render\<close>, for \<open>1 \<le> i\<close>.  The
  result is the state after the iteration, or \<open>None\<close> if the call of \<^verbatim>\<open>renderCubic\<close>
  does not return; next to it, as an observation that the source does not compute,
  the parameter range \<open>(t0, t1)\<close> of the \<^verbatim>\<open>renderCubic\<close> call, if the iteration made
  one.  The source writes \<^verbatim>\<open>abs(p0.z())\<close> here and \<^verbatim>\<open>std::abs\<close> in the other two
  functions; all three are the absolute value of a double.
\<close>

definition render_range_body ::
  "CurvePlotSample list \<Rightarrow> Affine3d \<Rightarrow> HighPrec_Frustum \<Rightarrow> HighPrec_RenderContext \<Rightarrow> real \<Rightarrow> real
     \<Rightarrow> real \<Rightarrow> real \<Rightarrow> nat \<Rightarrow> RenderLoopState \<Rightarrow> (real \<times> real) list \<times> RenderLoopState option" where
  "render_range_body m_samples modelview viewFrustum rc farZ subdivisionThreshold
       startTime endTime i st =
     (let p1 = transform modelview (point4 (sample_position (m_samples ! i)) 1);
          v1 = transform modelview (point4 (sample_velocity (m_samples ! i)) 0);
          lastSegment = (if endTime \<le> sample_t (m_samples ! i) then True else rl_lastSegment st);
          curveBoundingRadius = sample_boundingRadius (m_samples ! i);
          minDistance = \<bar>zcoord4 (rl_p0 st)\<bar> - curveBoundingRadius;
          st1 = st\<lparr>rl_lastSegment := lastSegment\<rparr>
      in if curveBoundingRadius \<ge> subdivisionThreshold * minDistance \<or> lastSegment
            \<or> rl_firstSegment st then
           (if cullSphere viewFrustum (rl_p0 st) curveBoundingRadius then
              ([], Some (st1\<lparr>rl_vbuf := (if \<not> rl_restartCurve st then vbuf_end True (rl_vbuf st)
                                            else rl_vbuf st),
                              rl_restartCurve := True, rl_p0 := p1, rl_v0 := v1\<rparr>))
            else
              (let dt = sample_t (m_samples ! i) - sample_t (m_samples ! (i - 1));
                   t0 = (if rl_firstSegment st
                         then std_clamp ((startTime - sample_t (m_samples ! (i - 1))) / dt) 0 1
                         else 0);
                   t1 = (if lastSegment
                         then (endTime - sample_t (m_samples ! (i - 1))) / dt
                         else 1);
                   coeff = cubicHermiteCoefficients (rl_p0 st) p1
                             (scale4 dt (rl_v0 st)) (scale4 dt v1)
               in ([(t0, t1)],
                   case renderCubic rc (rl_restartCurve st) coeff t0 t1 curveBoundingRadius 1
                          (rl_vbuf st) of
                     None \<Rightarrow> None
                   | Some (restartCurve, vb) \<Rightarrow>
                       Some (st1\<lparr>rl_firstSegment := False, rl_restartCurve := restartCurve,
                                  rl_vbuf := vb, rl_p0 := p1, rl_v0 := v1\<rparr>))))
         else
           (if zcoord4 (rl_p0 st) + curveBoundingRadius < farZ then
              ([], Some (st1\<lparr>rl_vbuf := (if \<not> rl_restartCurve st then vbuf_end True (rl_vbuf st)
                                            else rl_vbuf st),
                              rl_restartCurve := True, rl_p0 := p1, rl_v0 := v1\<rparr>))
            else
              ([], Some (st1\<lparr>rl_vbuf :=
                                vbuf_vertex p1
                                  (if rl_restartCurve st
                                   then vbuf_vertex (rl_p0 st) (vbuf_begin (rl_vbuf st))
                                   else rl_vbuf st),
                              rl_restartCurve := False, rl_p0 := p1, rl_v0 := v1\<rparr>))))"

text \<open>
  The loop \<^verbatim>\<open>for (i = startSample + 1; i < m_samples.size() && !lastSegment; i++)\<close>; the
  observed parameter ranges are collected in call order.
\<close>

function render_range_loop ::
  "CurvePlotSample list \<Rightarrow> Affine3d \<Rightarrow> HighPrec_Frustum \<Rightarrow> HighPrec_RenderContext \<Rightarrow> real \<Rightarrow> real
     \<Rightarrow> real \<Rightarrow> real \<Rightarrow> nat \<Rightarrow> RenderLoopState \<Rightarrow> (real \<times> real) list \<times> RenderLoopState option" where
  "render_range_loop m_samples modelview viewFrustum rc farZ subdivisionThreshold
       startTime endTime i st =
     (if i < length m_samples \<and> \<not> rl_lastSegment st then
        (case render_range_body m_samples modelview viewFrustum rc farZ subdivisionThreshold
                startTime endTime i st of
           (calls, None) \<Rightarrow> (calls, None)
         | (calls, Some st') \<Rightarrow>
             (case render_range_loop m_samples modelview viewFrustum rc farZ
                     subdivisionThreshold startTime endTime (i + 1) st' of
                (calls', res) \<Rightarrow> (calls @ calls', res)))
      else ([], Some st))"
  by pat_completeness auto
termination
  by (relation "measure (\<lambda>(m_samples, modelview, viewFrustum, rc, farZ, subdivisionThreshold,
                            startTime, endTime, i, st). length m_samples - i)")
     auto

declare render_range_loop.simps [simp del]

text \<open>
  What every render function does after its loop: \<^verbatim>\<open>if (!restartCurve) vbuf.end();
  vbuf.flush(); vbuf.finish();\<close>
\<close>

definition render_close :: "RenderLoopState \<Rightarrow> HighPrec_VertexBuffer" where
  "render_close st =
     vbuf_finish (vbuf_flush True
       (if \<not> rl_restartCurve st then vbuf_end True (rl_vbuf st) else rl_vbuf st))"

text \<open>
  The time-range \<^verbatim>\<open>CurvePlot::render\<close>, on the sample store \<open>m_samples\<close> and the global
  vertex buffer \<open>vb\<close>.  It returns the buffer after the call (\<open>None\<close> if the call does
  not return) and the observed \<^verbatim>\<open>renderCubic\<close> parameter ranges.
\<close>

definition render_range ::
  "CurvePlotSample list \<Rightarrow> Affine3d \<Rightarrow> real \<Rightarrow> real \<Rightarrow> Vector3d \<times> Vector3d \<times> Vector3d \<times> Vector3d
     \<Rightarrow> real \<Rightarrow> real \<Rightarrow> real \<Rightarrow> Vector4f \<Rightarrow> bool \<Rightarrow> HighPrec_VertexBuffer
     \<Rightarrow> (real \<times> real) list \<times> HighPrec_VertexBuffer option" where
  "render_range m_samples modelview nearZ farZ viewFrustumPlaneNormals subdivisionThreshold
       startTime endTime col lat vb =
     (if m_samples = [] \<or> endTime \<le> sample_t (hd m_samples)
         \<or> startTime \<ge> sample_t (last m_samples) then ([], Some vb)
      else
        (let startSample0 = findStartSample m_samples startTime 0;
             startSample = (if startSample0 > 0 then startSample0 - 1 else startSample0);
             p0 = transform modelview (point4 (sample_position (m_samples ! startSample)) 1);
             v0 = transform modelview (point4 (sample_velocity (m_samples ! startSample)) 0);
             viewFrustum = mkFrustum nearZ farZ viewFrustumPlaneNormals;
             rc = \<lparr>m_viewFrustum = viewFrustum, m_subdivisionThreshold = subdivisionThreshold\<rparr>;
             vb1 = vbuf_setColor col (vbuf_setup lat (vbuf_createVertexBuffer vb));
             st = \<lparr>rl_restartCurve = True, rl_p0 = p0, rl_v0 = v0, rl_opacity0 = 0,
                   rl_firstSegment = True, rl_lastSegment = False, rl_vbuf = vb1\<rparr>
         in case render_range_loop m_samples modelview viewFrustum rc farZ subdivisionThreshold
                   startTime endTime (startSample + 1) st of
              (calls, None) \<Rightarrow> (calls, None)
            | (calls, Some st') \<Rightarrow> (calls, Some (render_close st'))))"

text \<open>One iteration of the segment loop of \<^verbatim>\<open>renderFaded\<close>.\<close>

definition renderFaded_body ::
  "CurvePlotSample list \<Rightarrow> Affine3d \<Rightarrow> HighPrec_Frustum \<Rightarrow> HighPrec_RenderContext \<Rightarrow> real \<Rightarrow> real
     \<Rightarrow> real \<Rightarrow> real \<Rightarrow> Vector4f \<Rightarrow> real \<Rightarrow> real \<Rightarrow> nat \<Rightarrow> RenderLoopState
     \<Rightarrow> (real \<times> real) list \<times> RenderLoopState option" where
  "renderFaded_body m_samples modelview viewFrustum rc farZ subdivisionThreshold
       startTime endTime col fadeStartTime fadeRate i st =
     (let p1 = transform modelview (point4 (sample_position (m_samples ! i)) 1);
          v1 = transform modelview (point4 (sample_velocity (m_samples ! i)) 0);
          opacity1 = std_clamp ((sample_t (m_samples ! i) - fadeStartTime) * fadeRate) 0 1;
          lastSegment = (if endTime \<le> sample_t (m_samples ! i) then True else rl_lastSegment st);
          curveBoundingRadius = sample_boundingRadius (m_samples ! i);
          minDistance = \<bar>zcoord4 (rl_p0 st)\<bar> - curveBoundingRadius;
          st1 = st\<lparr>rl_lastSegment := lastSegment\<rparr>
      in if curveBoundingRadius \<ge> subdivisionThreshold * minDistance \<or> lastSegment
            \<or> rl_firstSegment st then
           (if cullSphere viewFrustum (rl_p0 st) curveBoundingRadius then
              ([], Some (st1\<lparr>rl_vbuf := (if \<not> rl_restartCurve st then vbuf_end True (rl_vbuf st)
                                            else rl_vbuf st),
                              rl_restartCurve := True, rl_p0 := p1, rl_v0 := v1,
                              rl_opacity0 := opacity1\<rparr>))
            else
              (let dt = sample_t (m_samples ! i) - sample_t (m_samples ! (i - 1));
                   t0 = (if rl_firstSegment st
                         then std_clamp ((startTime - sample_t (m_samples ! (i - 1))) / dt) 0 1
                         else 0);
                   t1 = (if lastSegment
                         then (endTime - sample_t (m_samples ! (i - 1))) / dt
                         else 1);
                   coeff = cubicHermiteCoefficients (rl_p0 st) p1
                             (scale4 dt (rl_v0 st)) (scale4 dt v1)
               in ([(t0, t1)],
                   case renderCubicFaded rc (rl_restartCurve st) coeff t0 t1 col
                          ((fadeStartTime - sample_t (m_samples ! (i - 1))) / dt) (fadeRate * dt)
                          curveBoundingRadius 1 (rl_vbuf st) of
                     None \<Rightarrow> None
                   | Some (restartCurve, vb) \<Rightarrow>
                       Some (st1\<lparr>rl_firstSegment := False, rl_restartCurve := restartCurve,
                                  rl_vbuf := vb, rl_p0 := p1, rl_v0 := v1,
                                  rl_opacity0 := opacity1\<rparr>))))
         else
           (if zcoord4 (rl_p0 st) + curveBoundingRadius < farZ then
              ([], Some (st1\<lparr>rl_vbuf := (if \<not> rl_restartCurve st then vbuf_end True (rl_vbuf st)
                                            else rl_vbuf st),
                              rl_restartCurve := True, rl_p0 := p1, rl_v0 := v1,
                              rl_opacity0 := opacity1\<rparr>))
            else
              ([], Some (st1\<lparr>rl_vbuf :=
                                vbuf_vertex_color p1 (fadedColor col opacity1)
                                  (if rl_restartCurve st
                                   then vbuf_vertex_color (rl_p0 st)
                                          (fadedColor col (rl_opacity0 st))
                                          (vbuf_begin (rl_vbuf st))
                                   else rl_vbuf st),
                              rl_restartCurve := False, rl_p0 := p1, rl_v0 := v1,
                              rl_opacity0 := opacity1\<rparr>))))"

function renderFaded_loop ::
  "CurvePlotSample list \<Rightarrow> Affine3d \<Rightarrow> HighPrec_Frustum \<Rightarrow> HighPrec_RenderContext \<Rightarrow> real \<Rightarrow> real
     \<Rightarrow> real \<Rightarrow> real \<Rightarrow> Vector4f \<Rightarrow> real \<Rightarrow> real \<Rightarrow> nat \<Rightarrow> RenderLoopState
     \<Rightarrow> (real \<times> real) list \<times> RenderLoopState option" where
  "renderFaded_loop m_samples modelview viewFrustum rc farZ subdivisionThreshold
       startTime endTime col fadeStartTime fadeRate i st =
     (if i < length m_samples \<and> \<not> rl_lastSegment st then
        (case renderFaded_body m_samples modelview viewFrustum rc farZ subdivisionThreshold
                startTime endTime col fadeStartTime fadeRate i st of
           (calls, None) \<Rightarrow> (calls, None)
         | (calls, Some st') \<Rightarrow>
             (case renderFaded_loop m_samples modelview viewFrustum rc farZ
                     subdivisionThreshold startTime endTime col fadeStartTime fadeRate
                     (i + 1) st' of
                (calls', res) \<Rightarrow> (calls @ calls', res)))
      else ([], Some st))"
  by pat_completeness auto
termination
  by (relation "measure (\<lambda>(m_samples, modelview, viewFrustum, rc, farZ, subdivisionThreshold,
                            startTime, endTime, col, fadeStartTime, fadeRate, i, st).
                          length m_samples - i)")
     auto

declare renderFaded_loop.simps [simp del]

text \<open>
  \<^verbatim>\<open>CurvePlot::renderFaded\<close>.  \<^verbatim>\<open>fadeRate = 1.0 / fadeDuration\<close> is infinite in the
  source when the two fade times are equal, where the division of the model gives zero;
  the fade rate enters the vertex colours only.
\<close>

definition renderFaded ::
  "CurvePlotSample list \<Rightarrow> Affine3d \<Rightarrow> real \<Rightarrow> real \<Rightarrow> Vector3d \<times> Vector3d \<times> Vector3d \<times> Vector3d
     \<Rightarrow> real \<Rightarrow> real \<Rightarrow> real \<Rightarrow> Vector4f \<Rightarrow> real \<Rightarrow> real \<Rightarrow> bool \<Rightarrow> HighPrec_VertexBuffer
     \<Rightarrow> (real \<times> real) list \<times> HighPrec_VertexBuffer option" where
  "renderFaded m_samples modelview nearZ farZ viewFrustumPlaneNormals subdivisionThreshold
       startTime endTime col fadeStartTime fadeEndTime lat vb =
     (if m_samples = [] \<or> endTime \<le> sample_t (hd m_samples)
         \<or> startTime \<ge> sample_t (last m_samples) then ([], Some vb)
      else
        (let startSample0 = findStartSample m_samples startTime 0;
             startSample = (if startSample0 > 0 then startSample0 - 1 else startSample0);
             fadeDuration = fadeEndTime - fadeStartTime;
             fadeRate = 1 / fadeDuration;
             p0 = transform modelview (point4 (sample_position (m_samples ! startSample)) 1);
             v0 = transform modelview (point4 (sample_velocity (m_samples ! startSample)) 0);
             opacity0 = std_clamp ((sample_t (m_samples ! startSample) - fadeStartTime) * fadeRate) 0 1;
             viewFrustum = mkFrustum nearZ farZ viewFrustumPlaneNormals;
             rc = \<lparr>m_viewFrustum = viewFrustum, m_subdivisionThreshold = subdivisionThreshold\<rparr>;
             vb1 = vbuf_setup lat (vbuf_createVertexBuffer vb);
             st = \<lparr>rl_restartCurve = True, rl_p0 = p0, rl_v0 = v0, rl_opacity0 = opacity0,
                   rl_firstSegment = True, rl_lastSegment = False, rl_vbuf = vb1\<rparr>
         in case renderFaded_loop m_samples modelview viewFrustum rc farZ subdivisionThreshold
                   startTime endTime col fadeStartTime fadeRate (startSample + 1) st of
              (calls, None) \<Rightarrow> (calls, None)
            | (calls, Some st') \<Rightarrow> (calls, Some (render_close st'))))"

text \<open>The number of draw submissions a render call added to those of the buffer given.\<close>

fun newDraws :: "HighPrec_VertexBuffer \<Rightarrow> (real \<times> real) list \<times> HighPrec_VertexBuffer option \<Rightarrow> nat option" where
  "newDraws vb (calls, None) = None"
| "newDraws vb (calls, Some vb') = Some (length (drawn vb') - length (drawn vb))"

text \<open>Stores built with \<^verbatim>\<open>addSample\<close> for the concrete runs.\<close>

definition twoSampleStore :: "CurvePlotSample list" where
  "twoSampleStore = addSample (sampleAt 10) (addSample (sampleAt 0) [])"

definition threeSampleStore :: "CurvePlotSample list" where
  "threeSampleStore = addSample (sampleAt 20) (addSample (sampleAt 10) (addSample (sampleAt 0) []))"

definition testNormals :: "Vector3d \<times> Vector3d \<times> Vector3d \<times> Vector3d" where
  "testNormals = ((0, 0, -1), (0, 0, -1), (0, 0, -1), (0, 0, -1))"

text \<open>
  The full-range \<^verbatim>\<open>CurvePlot::render\<close>.  Unlike the two time-range functions it has
  no test for an empty store: it starts by reading \<^verbatim>\<open>m_samples[0]\<close>, which on an
  empty deque is a read past the end, modelled as a fault.  Its loop runs over all
  segments and always renders the whole parameter range of a segment.
\<close>

datatype Fault = ReadPastEnd

definition render_full_body ::
  "CurvePlotSample list \<Rightarrow> Affine3d \<Rightarrow> HighPrec_Frustum \<Rightarrow> HighPrec_RenderContext \<Rightarrow> real \<Rightarrow> real
     \<Rightarrow> nat \<Rightarrow> RenderLoopState \<Rightarrow> RenderLoopState option" where
  "render_full_body m_samples modelview viewFrustum rc farZ subdivisionThreshold i st =
     (let p1 = transform modelview (point4 (sample_position (m_samples ! i)) 1);
          v1 = transform modelview (point4 (sample_velocity (m_samples ! i)) 0);
          curveBoundingRadius = sample_boundingRadius (m_samples ! i);
          minDistance = \<bar>zcoord4 (rl_p0 st)\<bar> - curveBoundingRadius
      in if curveBoundingRadius \<ge> subdivisionThreshold * minDistance then
           (if cullSphere viewFrustum (rl_p0 st) curveBoundingRadius then
              Some (st\<lparr>rl_vbuf := (if \<not> rl_restartCurve st then vbuf_end True (rl_vbuf st)
                                     else rl_vbuf st),
                       rl_restartCurve := True, rl_p0 := p1, rl_v0 := v1\<rparr>)
            else
              (let dt = sample_t (m_samples ! i) - sample_t (m_samples ! (i - 1));
                   coeff = cubicHermiteCoefficients (rl_p0 st) p1
                             (scale4 dt (rl_v0 st)) (scale4 dt v1)
               in case renderCubic rc (rl_restartCurve st) coeff 0 1 curveBoundingRadius 1
                         (rl_vbuf st) of
                    None \<Rightarrow> None
                  | Some (restartCurve, vb) \<Rightarrow>
                      Some (st\<lparr>rl_restartCurve := restartCurve, rl_vbuf := vb,
                                rl_p0 := p1, rl_v0 := v1\<rparr>)))
         else
           (if zcoord4 (rl_p0 st) + curveBoundingRadius < farZ then
              Some (st\<lparr>rl_vbuf := (if \<not> rl_restartCurve st then vbuf_end True (rl_vbuf st)
                                     else rl_vbuf st),
                       rl_restartCurve := True, rl_p0 := p1, rl_v0 := v1\<rparr>)
            else
              Some (st\<lparr>rl_vbuf :=
                         vbuf_vertex p1
                           (if rl_restartCurve st
                            then vbuf_vertex (rl_p0 st) (vbuf_begin (rl_vbuf st))
                            else rl_vbuf st),
                       rl_restartCurve := False, rl_p0 := p1, rl_v0 := v1\<rparr>)))"

function render_full_loop ::
  "CurvePlotSample list \<Rightarrow> Affine3d \<Rightarrow> HighPrec_Frustum \<Rightarrow> HighPrec_RenderContext \<Rightarrow> real \<Rightarrow> real
     \<Rightarrow> nat \<Rightarrow> RenderLoopState \<Rightarrow> RenderLoopState option" where
  "render_full_loop m_samples modelview viewFrustum rc farZ subdivisionThreshold i st =
     (if i < length m_samples then
        (case render_full_body m_samples modelview viewFrustum rc farZ subdivisionThreshold i st of
           None \<Rightarrow> None
         | Some st' \<Rightarrow>
             render_full_loop m_samples modelview viewFrustum rc farZ subdivisionThreshold
               (i + 1) st')
      else Some st)"
  by pat_completeness auto
termination
  by (relation "measure (\<lambda>(m_samples, modelview, viewFrustum, rc, farZ, subdivisionThreshold,
                            i, st). length m_samples - i)")
     auto

declare render_full_loop.simps [simp del]

definition render_full ::
  "CurvePlotSample list \<Rightarrow> Affine3d \<Rightarrow> real \<Rightarrow> real \<Rightarrow> Vector3d \<times> Vector3d \<times> Vector3d \<times> Vector3d
     \<Rightarrow> real \<Rightarrow> Vector4f \<Rightarrow> bool \<Rightarrow> HighPrec_VertexBuffer
     \<Rightarrow> Fault + HighPrec_VertexBuffer option" where
  "render_full m_samples modelview nearZ farZ viewFrustumPlaneNormals subdivisionThreshold
       col lat vb =
     (if m_samples = [] then Inl ReadPastEnd
      else
        (let p0 = transform modelview (point4 (sample_position (m_samples ! 0)) 1);
             v0 = transform modelview (point4 (sample_velocity (m_samples ! 0)) 0);
             viewFrustum = mkFrustum nearZ farZ viewFrustumPlaneNormals;
             rc = \<lparr>m_viewFrustum = viewFrustum, m_subdivisionThreshold = subdivisionThreshold\<rparr>;
             vb1 = vbuf_setColor col (vbuf_setup lat (vbuf_createVertexBuffer vb));
             st = \<lparr>rl_restartCurve = True, rl_p0 = p0, rl_v0 = v0, rl_opacity0 = 0,
                   rl_firstSegment = False, rl_lastSegment = False, rl_vbuf = vb1\<rparr>
         in Inr (case render_full_loop m_samples modelview viewFrustum rc farZ
                        subdivisionThreshold 1 st of
                   None \<Rightarrow> None
                 | Some st' \<Rightarrow> Some (render_close st'))))"

section \<open>Properties of the sample store\<close>

lemma times_addSample:
  "map sample_t (addSample s ss) =
     (if ss = [] \<or> sample_t s > sample_t (last ss) then map sample_t ss @ [sample_t s]
      else if sample_t s < sample_t (hd ss) then sample_t s # map sample_t ss
      else map sample_t ss)"
  by (cases ss) (auto simp: addSample_def Let_def map_update nth_append list_update_append
        split: nat.splits)

lemma sorted_wrt_less_snoc:
  fixes xs :: "real list"
  assumes "sorted_wrt (<) xs" "xs = [] \<or> last xs < x"
  shows "sorted_wrt (<) (xs @ [x])"
proof -
  have "\<forall>y\<in>set xs. y < x"
  proof
    fix y assume y: "y \<in> set xs"
    then have ne: "xs \<noteq> []" by auto
    then have "xs = butlast xs @ [last xs]" by simp
    then have "sorted_wrt (<) (butlast xs @ [last xs])" using assms(1) by simp
    then have "\<forall>z\<in>set (butlast xs). z < last xs" by (simp add: sorted_wrt_append)
    moreover have "y \<in> set (butlast xs) \<or> y = last xs"
      using y ne by (metis Un_iff append_butlast_last_id empty_iff empty_set set_ConsD set_append)
    ultimately show "y < x" using assms(2) ne by auto
  qed
  then show ?thesis using assms(1) by (simp add: sorted_wrt_append)
qed

lemma sorted_wrt_less_Cons:
  fixes xs :: "real list"
  assumes "sorted_wrt (<) xs" "xs = [] \<or> x < hd xs"
  shows "sorted_wrt (<) (x # xs)"
  using assms by (cases xs) auto

lemma timesIncreasing_addSample:
  "timesIncreasing ss \<Longrightarrow> timesIncreasing (addSample s ss)"
proof -
  assume a: "timesIncreasing ss"
  show ?thesis
  proof (cases "ss = [] \<or> sample_t s > sample_t (last ss)")
    case True
    then have "map sample_t ss = [] \<or> last (map sample_t ss) < sample_t s"
      by (cases "ss = []") (simp_all add: last_map)
    with a True show ?thesis
      unfolding timesIncreasing_def times_addSample
      by (simp add: sorted_wrt_less_snoc del: sorted_wrt_append)
  next
    case False
    then have ne: "ss \<noteq> []" by simp
    show ?thesis
    proof (cases "sample_t s < sample_t (hd ss)")
      case True
      then have "map sample_t ss = [] \<or> sample_t s < hd (map sample_t ss)"
        using ne by (simp add: hd_map)
      with a False True show ?thesis
        unfolding timesIncreasing_def times_addSample
        using sorted_wrt_less_Cons by auto
    next
      case False2: False
      with a False show ?thesis
        unfolding timesIncreasing_def times_addSample by auto
    qed
  qed
qed

lemma timesIncreasing_addSamples:
  "timesIncreasing ss \<Longrightarrow> timesIncreasing (addSamples new ss)"
  by (induction new arbitrary: ss) (auto simp: timesIncreasing_addSample)

lemma addSample_reject:
  "ss \<noteq> [] \<Longrightarrow> sample_t s \<le> sample_t (last ss) \<Longrightarrow> sample_t (hd ss) \<le> sample_t s
    \<Longrightarrow> addSample s ss = ss"
  by (simp add: addSample_def)

lemma timesIncreasing_removeSamplesBefore:
  "timesIncreasing ss \<Longrightarrow> timesIncreasing (removeSamplesBefore u ss)"
  by (induction ss) (auto simp: timesIncreasing_def)

lemma timesIncreasing_butlast: "timesIncreasing ss \<Longrightarrow> timesIncreasing (butlast ss)"
proof (cases "ss = []")
  case False
  assume a: "timesIncreasing ss"
  from False have "ss = butlast ss @ [last ss]" by simp
  then have "sorted_wrt (<) (map sample_t (butlast ss) @ [sample_t (last ss)])"
    using a unfolding timesIncreasing_def by (metis list.simps(8,9) map_append)
  then show ?thesis by (simp add: timesIncreasing_def sorted_wrt_append)
qed (simp add: timesIncreasing_def)

lemma timesIncreasing_removeSamplesAfter:
  "timesIncreasing ss \<Longrightarrow> timesIncreasing (removeSamplesAfter u ss)"
proof (induction u ss rule: removeSamplesAfter.induct)
  case (1 u ss)
  then show ?case
    by (subst removeSamplesAfter.simps) (auto simp: timesIncreasing_butlast)
qed

lemma reachable_timesIncreasing: "reachableStore ss \<Longrightarrow> timesIncreasing ss"
proof (induction rule: reachableStore.induct)
  case reach_empty
  show ?case by (simp add: timesIncreasing_def)
qed (simp_all add: timesIncreasing_addSample timesIncreasing_removeSamplesBefore
        timesIncreasing_removeSamplesAfter)

lemma timesIncreasing_hd_le_last:
  assumes "timesIncreasing ss" "ss \<noteq> []"
  shows "sample_t (hd ss) \<le> sample_t (last ss)"
proof (cases ss)
  case (Cons a as)
  show ?thesis
  proof (cases "as = []")
    case False
    then have "last ss \<in> set as" using Cons by auto
    then show ?thesis using assms(1) Cons by (auto simp: timesIncreasing_def)
  qed (simp add: Cons)
qed (use assms in simp)







lemma cubicPoint_1: "cubicPoint (cubicHermiteCoefficients p0 p1 v0 v1) 1 = p1"
  by (cases p0; cases p1; cases v0; cases v1) (simp add: cubicPoint_def cubicHermiteCoefficients_def)


lemma segment_end: "cubicPoint (segmentCoeff s0 s1) 1 = zeroExtend (sample_position s1)"
  by (simp add: segmentCoeff_def Let_def cubicPoint_1)

lemma segmentExtents_radius [simp]:
  "segmentExtents (a\<lparr>sample_boundingRadius := r\<rparr>) b = segmentExtents a b"
  "segmentExtents a (b\<lparr>sample_boundingRadius := r\<rparr>) = segmentExtents a b"
  by (simp_all add: segmentExtents_def segmentCoeff_def)










text \<open>
  Claim C4.  Starting from a store whose sample times are strictly increasing, any
  sequence of \<^verbatim>\<open>addSample\<close> calls leaves the times strictly increasing; and a sample
  whose time lies strictly between the times of the first and the last sample leaves
  the store unchanged, size and contents.
\<close>

theorem addSample_keeps_times_increasing:
  "timesIncreasing ss \<Longrightarrow>
     timesIncreasing (addSamples new ss) \<and>
     (ss \<noteq> [] \<and> sample_t (hd ss) < sample_t s \<and> sample_t s < sample_t (last ss)
        \<longrightarrow> addSample s ss = ss)"
  by (simp add: timesIncreasing_addSamples addSample_reject)

theorem addSample_keeps_times_increasing_witness:
  "timesIncreasing [sampleAt 0, sampleAt 10] \<and>
   timesIncreasing (addSamples [sampleAt 20, sampleAt (-5), sampleAt 7] [sampleAt 0, sampleAt 10]) \<and>
   sample_t (hd [sampleAt 0, sampleAt 10]) < sample_t (sampleAt 5) \<and>
   sample_t (sampleAt 5) < sample_t (last [sampleAt 0, sampleAt 10]) \<and>
   addSample (sampleAt 5) [sampleAt 0, sampleAt 10] = [sampleAt 0, sampleAt 10]"
proof -
  have h: "timesIncreasing [sampleAt 0, sampleAt 10]"
    by (simp add: timesIncreasing_def sampleAt_def)
  show ?thesis
    using h addSample_keeps_times_increasing
      [OF h, of "[sampleAt 20, sampleAt (-5), sampleAt 7]" "sampleAt 5"]
    by (simp add: sampleAt_def)
qed

text \<open>
  Claim C10.  On every non-empty store a \<^verbatim>\<open>CurvePlot\<close> can hold, \<^verbatim>\<open>addSample\<close> with a
  sample whose time equals the first sample's time or the last sample's time leaves
  the store unchanged: the rejection covers the boundary times too.
\<close>

theorem addSample_rejects_boundary_times:
  "reachableStore ss \<Longrightarrow> ss \<noteq> [] \<Longrightarrow>
     sample_t s = sample_t (hd ss) \<or> sample_t s = sample_t (last ss) \<Longrightarrow>
     addSample s ss = ss"
  using timesIncreasing_hd_le_last [OF reachable_timesIncreasing]
  by (auto intro!: addSample_reject)

theorem addSample_rejects_boundary_times_witness:
  "reachableStore (addSample (sampleAt 3) []) \<and> addSample (sampleAt 3) [] \<noteq> [] \<and>
   sample_t (movingSample 3) = sample_t (hd (addSample (sampleAt 3) [])) \<and>
   addSample (movingSample 3) (addSample (sampleAt 3) []) = addSample (sampleAt 3) []"
proof -
  have r: "reachableStore (addSample (sampleAt 3) [])"
    by (intro reachableStore.intros)
  have n: "addSample (sampleAt 3) [] \<noteq> []"
    by (simp add: addSample_def)
  have e: "sample_t (movingSample 3) = sample_t (hd (addSample (sampleAt 3) [])) \<or>
           sample_t (movingSample 3) = sample_t (last (addSample (sampleAt 3) []))"
    by (simp add: addSample_def sampleAt_def movingSample_def)
  show ?thesis
    using r n addSample_rejects_boundary_times [OF r n e]
    by (simp add: addSample_def sampleAt_def movingSample_def)
qed



section \<open>Properties of the frustum test\<close>






lemma head3_zeroExtend [simp]: "head3 (zeroExtend n) = n"
  by (cases n) simp




section \<open>Properties of the vertex emitter\<close>



lemma stripSlots_append [simp]: "stripSlots (ls @ [n]) = stripSlots ls + Suc n"
  by (induction ls) simp_all



































lemma end_strip_slots:
  fixes d0 :: "nat \<Rightarrow> Vertex"
  assumes "4 \<le> index"
    and "d1 = d0(index := (d0 index)\<lparr>vertex_position := vertex_position (d0 (index - 4))\<rparr>)"
    and "d2 = d1(index + 1 := (d1 (index + 1))\<lparr>vertex_position := vertex_position (d1 (index - 3))\<rparr>)"
    and "d3 = d2(index - 2 := (d2 (index - 2))\<lparr>vertex_scale := - vertex_scale (d2 (index - 2))\<rparr>)"
    and "d4 = d3(index - 1 := (d3 (index - 1))\<lparr>vertex_scale := - vertex_scale (d3 (index - 1))\<rparr>)"
  shows "vertex_position (d4 index) = vertex_position (d0 (index - 4))"
    and "vertex_position (d4 (index + 1)) = vertex_position (d0 (index - 3))"
    and "vertex_scale (d4 (index - 2)) = - vertex_scale (d0 (index - 2))"
    and "vertex_scale (d4 (index - 1)) = - vertex_scale (d0 (index - 1))"
    and "\<And>k. k < index \<Longrightarrow> vertex_position (d4 k) = vertex_position (d0 k)"
proof -
  obtain m where m: "index = m + 4" using assms(1) by (metis add.commute le_Suc_ex)
  have s: "index - 4 = m" "index - 3 = m + 1" "index - 2 = m + 2" "index - 1 = m + 3"
    "index + 1 = m + 5"
    by (simp_all add: m)
  show "vertex_position (d4 index) = vertex_position (d0 (index - 4))"
    unfolding assms(2-5) s unfolding m by simp
  show "vertex_position (d4 (index + 1)) = vertex_position (d0 (index - 3))"
    unfolding assms(2-5) s unfolding m by simp
  show "vertex_scale (d4 (index - 2)) = - vertex_scale (d0 (index - 2))"
    unfolding assms(2-5) s unfolding m by simp
  show "vertex_scale (d4 (index - 1)) = - vertex_scale (d0 (index - 1))"
    unfolding assms(2-5) s unfolding m by simp
  show "\<And>k. k < index \<Longrightarrow> vertex_position (d4 k) = vertex_position (d0 k)"
    unfolding assms(2-5) s unfolding m by simp
qed

text \<open>
  Claim C7, as amended.  Postcondition of \<^verbatim>\<open>end()\<close> on a buffer whose open strip lies
  below the cursor and whose cursor is below the capacity.  A strip of fewer than two
  points is rolled back: the cursor moves back by the strip length and nothing else
  changes.  A strip of two or more points gets a copy of its second-to-last point
  (not of its last point) in the two slots after its last point, the scales of the
  last point are negated, and its length is recorded; if the cursor then equals the
  capacity, the buffer is flushed at once, which submits the recorded strips, this
  one included, and clears the list.
\<close>

theorem vbuf_end_postcondition:
  assumes "currentStripLength vb \<le> currentPosition vb" "currentPosition vb < capacity vb"
  shows "(currentStripLength vb < 2 \<longrightarrow>
            vbuf_end True vb =
              vb\<lparr>currentPosition := currentPosition vb - currentStripLength vb,
                 currentStripLength := 0\<rparr>) \<and>
         (2 \<le> currentStripLength vb \<longrightarrow>
            vertex_position (data (vbuf_end True vb) (currentPosition vb * 2)) =
              vertex_position (data vb (currentPosition vb * 2 - 4)) \<and>
            vertex_position (data (vbuf_end True vb) (currentPosition vb * 2 + 1)) =
              vertex_position (data vb (currentPosition vb * 2 - 3)) \<and>
            vertex_scale (data (vbuf_end True vb) (currentPosition vb * 2 - 2)) =
              - vertex_scale (data vb (currentPosition vb * 2 - 2)) \<and>
            vertex_scale (data (vbuf_end True vb) (currentPosition vb * 2 - 1)) =
              - vertex_scale (data vb (currentPosition vb * 2 - 1)) \<and>
            currentStripLength (vbuf_end True vb) = 0) \<and>
         (2 \<le> currentStripLength vb \<and> currentPosition vb + 1 < capacity vb \<longrightarrow>
            currentPosition (vbuf_end True vb) = currentPosition vb + 1 \<and>
            stripLengths (vbuf_end True vb) = stripLengths vb @ [currentStripLength vb] \<and>
            drawn (vbuf_end True vb) = drawn vb) \<and>
         (2 \<le> currentStripLength vb \<and> currentPosition vb + 1 = capacity vb \<longrightarrow>
            currentPosition (vbuf_end True vb) = 0 \<and>
            stripLengths (vbuf_end True vb) = [] \<and>
            drawn (vbuf_end True vb) =
              drawn vb @ drawStrips (lineAsTriangles vb) (data (vbuf_end True vb)) 0
                           (stripLengths vb @ [currentStripLength vb]))"
proof (cases "2 \<le> currentStripLength vb")
  case False
  then have lt: "currentStripLength vb < 2" by simp
  have st: "vbuf_end_strip vb =
      vb\<lparr>currentPosition := currentPosition vb - currentStripLength vb, currentStripLength := 0\<rparr>"
    using lt assms(1) by (simp add: vbuf_end_strip_def)
  have "currentPosition vb - currentStripLength vb \<noteq> capacity vb"
    using assms by linarith
  then have e: "vbuf_end True vb =
      vb\<lparr>currentPosition := currentPosition vb - currentStripLength vb, currentStripLength := 0\<rparr>"
    unfolding vbuf_end_def st by (simp add: Let_def)
  show ?thesis
  proof (intro conjI impI)
    show "vbuf_end True vb =
      vb\<lparr>currentPosition := currentPosition vb - currentStripLength vb, currentStripLength := 0\<rparr>"
      by (rule e)
  qed (use False in simp_all)
next
  case True
  define index where "index = currentPosition vb * 2"
  define d0 where "d0 = data vb"
  define d1 where "d1 = d0(index := (d0 index)\<lparr>vertex_position := vertex_position (d0 (index - 4))\<rparr>)"
  define d2 where "d2 = d1(index + 1 := (d1 (index + 1))\<lparr>vertex_position := vertex_position (d1 (index - 3))\<rparr>)"
  define d3 where "d3 = d2(index - 2 := (d2 (index - 2))\<lparr>vertex_scale := - vertex_scale (d2 (index - 2))\<rparr>)"
  define d4 where "d4 = d3(index - 1 := (d3 (index - 1))\<lparr>vertex_scale := - vertex_scale (d3 (index - 1))\<rparr>)"
  have i4: "4 \<le> index" using True assms(1) by (simp add: index_def)
  note slots = end_strip_slots [OF i4 d1_def d2_def d3_def d4_def]
  have gt: "currentStripLength vb > 1" using True by simp
  have E: "vbuf_end_strip vb =
      vb\<lparr>data := d4, currentPosition := currentPosition vb + 1,
         stripLengths := stripLengths vb @ [currentStripLength vb], currentStripLength := 0\<rparr>"
    unfolding vbuf_end_strip_def Let_def d4_def d3_def d2_def d1_def d0_def index_def
    using gt by simp
  show ?thesis
  proof (cases "currentPosition vb + 1 = capacity vb")
    case eq: True
    have R: "vbuf_end True vb =
      vb\<lparr>data := d4, currentPosition := 0, stripLengths := [], currentStripLength := 0,
         drawn := drawn vb @ drawStrips (lineAsTriangles vb) d4 0 (stripLengths vb @ [currentStripLength vb])\<rparr>"
      unfolding vbuf_end_def E using eq by (simp add: Let_def vbuf_flush_def)
    show ?thesis unfolding R index_def [symmetric] using slots(1-4) eq True
      by (simp add: d0_def)
  next
    case ne: False
    have R: "vbuf_end True vb =
      vb\<lparr>data := d4, currentPosition := currentPosition vb + 1,
         stripLengths := stripLengths vb @ [currentStripLength vb], currentStripLength := 0\<rparr>"
      unfolding vbuf_end_def E using ne by (simp add: Let_def)
    show ?thesis unfolding R index_def [symmetric] using slots(1-4) ne True
      by (simp add: d0_def)
  qed
qed

lemma twoPointStrip_fields:
  "currentPosition twoPointStrip = 2" "currentStripLength twoPointStrip = 2"
  "capacity twoPointStrip = 4096" "stripLengths twoPointStrip = []"
  "vertex_position (data twoPointStrip 0) = (1, 0, -5, 1)"
  "vertex_position (data twoPointStrip (Suc 0)) = (1, 0, -5, 1)"
  "vertex_position (data twoPointStrip 2) = (2, 0, -5, 1)"
  by (simp_all add: twoPointStrip_def vbuf_vertex_def vbuf_vertex_color_def Let_def
        vbuf_setup_def newVertexBuffer_def)

theorem vbuf_end_postcondition_witness:
  "currentStripLength twoPointStrip \<le> currentPosition twoPointStrip \<and>
   currentPosition twoPointStrip < capacity twoPointStrip \<and>
   2 \<le> currentStripLength twoPointStrip \<and>
   currentPosition twoPointStrip + 1 < capacity twoPointStrip \<and>
   vertex_position (data (vbuf_end True twoPointStrip) 4) = (1, 0, -5, 1) \<and>
   vertex_position (data (vbuf_end True twoPointStrip) 5) = (1, 0, -5, 1) \<and>
   currentPosition (vbuf_end True twoPointStrip) = 3 \<and>
   stripLengths (vbuf_end True twoPointStrip) = [2]"
  using vbuf_end_postcondition [of twoPointStrip]
  by (simp add: twoPointStrip_fields)

text \<open>
  The claim as worded fails: after the points \<open>(1, 0, -5)\<close> and \<open>(2, 0, -5)\<close> the
  slot behind the strip holds the first of them, not a repeat of the last.
\<close>

theorem vbuf_end_repeats_last_point_counterexample:
  "2 \<le> currentStripLength twoPointStrip \<and>
   vertex_position (data twoPointStrip (2 * (currentPosition twoPointStrip - 1))) = (2, 0, -5, 1) \<and>
   vertex_position (data (vbuf_end True twoPointStrip) (currentPosition twoPointStrip * 2))
     \<noteq> (2, 0, -5, 1)"
  by (simp add: twoPointStrip_def vbuf_vertex_def vbuf_vertex_color_def Let_def
        vbuf_setup_def newVertexBuffer_def vbuf_end_def vbuf_end_strip_def)

section \<open>Properties of the adaptive subdivision\<close>





lemma lineCoeff_eval: "lineCoeff = ((0, 0, -5, 1), (8, 0, 0, 0), (0,0,0,0), (0,0,0,0))"
  by (simp add: lineCoeff_def cubicHermiteCoefficients_def)


text \<open>
  Claim C1, as amended.  \<^verbatim>\<open>renderCubic\<close> and \<^verbatim>\<open>renderCubicFaded\<close> run their loop with
  the segment bounding radius set to the bounding radius they are given divided by 8,
  over 8 equal sub-intervals.  At every sub-interval \<open>i\<close>, at whatever recursion level,
  with \<open>p\<close> the point at its end and \<open>minDistance = max (- nearZ) (|p.z| - radius)\<close>:
  if \<open>radius \<ge> threshold * minDistance\<close> the sub-interval is culled (ending an open
  strip) when \<^verbatim>\<open>cullSphere\<close> says so and otherwise subdivided by a recursive call on
  \<open>[t - dt, t]\<close> with that radius; if the inequality fails it is drawn directly, with no
  recursion, by emitting its end point, preceded by its start point only when no
  strip is open.
\<close>

theorem renderCubic_decision:
  "i \<le> SubdivisionFactor \<Longrightarrow>
   renderCubic rc restartCurve coeff t0 t1 curveBoundingRadius depth vb =
     renderCubicLoop rc coeff t0 ((t1 - t0) / 8) (curveBoundingRadius / 8) depth 1
       (cubicPoint coeff t0) restartCurve vb \<and>
   renderCubicLoop rc coeff t0 dt segmentBoundingRadius depth i lastP restartCurve vb =
     (let t = t0 + dt * real i;
          p = cubicPoint coeff t;
          minDistance = max (- m_nearZ (m_viewFrustum rc)) (\<bar>zcoord4 p\<bar> - segmentBoundingRadius)
      in if segmentBoundingRadius \<ge> m_subdivisionThreshold rc * minDistance then
           (if cullSphere (m_viewFrustum rc) p segmentBoundingRadius then
              renderCubicLoop rc coeff t0 dt segmentBoundingRadius depth (i + 1) p True
                (if restartCurve then vb else vbuf_end True vb)
            else
              Option.bind
                (renderCubic rc restartCurve coeff (t - dt) t segmentBoundingRadius (depth + 1) vb)
                (\<lambda>(restartCurve', vb').
                   renderCubicLoop rc coeff t0 dt segmentBoundingRadius depth (i + 1) p
                     restartCurve' vb'))
         else
           renderCubicLoop rc coeff t0 dt segmentBoundingRadius depth (i + 1) p False
             (vbuf_vertex p (if restartCurve then vbuf_vertex lastP vb else vb))) \<and>
   renderCubicFaded rc restartCurve coeff t0 t1 col fadeStart fadeRate curveBoundingRadius depth vb =
     renderCubicFadedLoop rc coeff t0 ((t1 - t0) / 8) col fadeStart fadeRate
       (curveBoundingRadius / 8) depth 1
       (cubicPoint coeff t0) (std_clamp ((t0 - fadeStart) * fadeRate) 0 1) restartCurve vb \<and>
   renderCubicFadedLoop rc coeff t0 dt col fadeStart fadeRate segmentBoundingRadius depth
       i lastP lastOpacity restartCurve vb =
     (let t = t0 + dt * real i;
          p = cubicPoint coeff t;
          opacity = std_clamp ((t - fadeStart) * fadeRate) 0 1;
          minDistance = max (- m_nearZ (m_viewFrustum rc)) (\<bar>zcoord4 p\<bar> - segmentBoundingRadius)
      in if segmentBoundingRadius \<ge> m_subdivisionThreshold rc * minDistance then
           (if cullSphere (m_viewFrustum rc) p segmentBoundingRadius then
              renderCubicFadedLoop rc coeff t0 dt col fadeStart fadeRate segmentBoundingRadius
                depth (i + 1) p opacity True
                (if restartCurve then vb else vbuf_end True vb)
            else
              Option.bind
                (renderCubicFaded rc restartCurve coeff (t - dt) t col fadeStart fadeRate
                   segmentBoundingRadius (depth + 1) vb)
                (\<lambda>(restartCurve', vb').
                   renderCubicFadedLoop rc coeff t0 dt col fadeStart fadeRate
                     segmentBoundingRadius depth (i + 1) p opacity restartCurve' vb'))
         else
           renderCubicFadedLoop rc coeff t0 dt col fadeStart fadeRate segmentBoundingRadius
             depth (i + 1) p opacity False
             (vbuf_vertex_color p (fadedColor col opacity)
                (if restartCurve then vbuf_vertex_color lastP (fadedColor col lastOpacity) vb
                 else vb)))"
proof -
  assume le: "i \<le> SubdivisionFactor"
  have inv: "\<And>x :: real. x * InvSubdivisionFactor = x / 8"
    by (simp add: InvSubdivisionFactor_def SubdivisionFactor_def)
  have a: "renderCubic rc restartCurve coeff t0 t1 curveBoundingRadius depth vb =
     renderCubicLoop rc coeff t0 ((t1 - t0) / 8) (curveBoundingRadius / 8) depth 1
       (cubicPoint coeff t0) restartCurve vb"
    by (simp add: renderCubic_def Let_def inv)
  have b: "renderCubicLoop rc coeff t0 dt segmentBoundingRadius depth i lastP restartCurve vb =
     (let t = t0 + dt * real i;
          p = cubicPoint coeff t;
          minDistance = max (- m_nearZ (m_viewFrustum rc)) (\<bar>zcoord4 p\<bar> - segmentBoundingRadius)
      in if segmentBoundingRadius \<ge> m_subdivisionThreshold rc * minDistance then
           (if cullSphere (m_viewFrustum rc) p segmentBoundingRadius then
              renderCubicLoop rc coeff t0 dt segmentBoundingRadius depth (i + 1) p True
                (if restartCurve then vb else vbuf_end True vb)
            else
              Option.bind
                (renderCubic rc restartCurve coeff (t - dt) t segmentBoundingRadius (depth + 1) vb)
                (\<lambda>(restartCurve', vb').
                   renderCubicLoop rc coeff t0 dt segmentBoundingRadius depth (i + 1) p
                     restartCurve' vb'))
         else
           renderCubicLoop rc coeff t0 dt segmentBoundingRadius depth (i + 1) p False
             (vbuf_vertex p (if restartCurve then vbuf_vertex lastP vb else vb)))"
    by (subst renderCubicLoop.simps) (simp add: le Let_def renderCubic_def vbuf_begin_def)
  have c: "renderCubicFaded rc restartCurve coeff t0 t1 col fadeStart fadeRate curveBoundingRadius depth vb =
     renderCubicFadedLoop rc coeff t0 ((t1 - t0) / 8) col fadeStart fadeRate
       (curveBoundingRadius / 8) depth 1
       (cubicPoint coeff t0) (std_clamp ((t0 - fadeStart) * fadeRate) 0 1) restartCurve vb"
    by (simp add: renderCubicFaded_def Let_def inv)
  have d: "renderCubicFadedLoop rc coeff t0 dt col fadeStart fadeRate segmentBoundingRadius depth
       i lastP lastOpacity restartCurve vb =
     (let t = t0 + dt * real i;
          p = cubicPoint coeff t;
          opacity = std_clamp ((t - fadeStart) * fadeRate) 0 1;
          minDistance = max (- m_nearZ (m_viewFrustum rc)) (\<bar>zcoord4 p\<bar> - segmentBoundingRadius)
      in if segmentBoundingRadius \<ge> m_subdivisionThreshold rc * minDistance then
           (if cullSphere (m_viewFrustum rc) p segmentBoundingRadius then
              renderCubicFadedLoop rc coeff t0 dt col fadeStart fadeRate segmentBoundingRadius
                depth (i + 1) p opacity True
                (if restartCurve then vb else vbuf_end True vb)
            else
              Option.bind
                (renderCubicFaded rc restartCurve coeff (t - dt) t col fadeStart fadeRate
                   segmentBoundingRadius (depth + 1) vb)
                (\<lambda>(restartCurve', vb').
                   renderCubicFadedLoop rc coeff t0 dt col fadeStart fadeRate
                     segmentBoundingRadius depth (i + 1) p opacity restartCurve' vb'))
         else
           renderCubicFadedLoop rc coeff t0 dt col fadeStart fadeRate segmentBoundingRadius
             depth (i + 1) p opacity False
             (vbuf_vertex_color p (fadedColor col opacity)
                (if restartCurve then vbuf_vertex_color lastP (fadedColor col lastOpacity) vb
                 else vb)))"
    by (subst renderCubicFadedLoop.simps) (simp add: le Let_def renderCubicFaded_def vbuf_begin_def)
  show ?thesis using a b c d by blast
qed

theorem renderCubic_decision_witness:
  "8 \<le> SubdivisionFactor \<and>
   bufferedPoints (renderCubicLoop testContext lineCoeff 0 (1 / 8) 1 1 8 (7, 0, -5, 1) False
      freshBuffer) = Some (False, [(8, 0, -5, 1)])"
  using renderCubic_decision [where i = 8 and rc = testContext and coeff = lineCoeff
      and dt = "1 / 8" and segmentBoundingRadius = 1 and depth = 1 and lastP = "(7, 0, -5, 1)"
      and restartCurve = False and vb = freshBuffer]
  by (simp add: lineCoeff_eval InvSubdivisionFactor_def SubdivisionFactor_def
     renderCubicLoop.simps [where i = 9] cubicPoint_def testContext_def testFrustum_def
     cullSphere_def freshBuffer_def vbuf_setup_def newVertexBuffer_def vbuf_vertex_def
     vbuf_vertex_color_def vbuf_begin_def generation_def Let_def upt_rec)

text \<open>
  The claim as worded fails in its count of vertices: a call whose 8 sub-intervals are
  all drawn directly emits 9 vertices, the start point once and one end point per
  sub-interval, not two per sub-interval.
\<close>

theorem renderCubic_nine_vertices_counterexample:
  "bufferedPoints (renderCubic testContext True lineCoeff 0 1 8 1 freshBuffer) =
     Some (False, [(0, 0, -5, 1), (1, 0, -5, 1), (2, 0, -5, 1), (3, 0, -5, 1),
        (4, 0, -5, 1), (5, 0, -5, 1), (6, 0, -5, 1), (7, 0, -5, 1), (8, 0, -5, 1)])"
  by (simp add: renderCubic_def lineCoeff_eval InvSubdivisionFactor_def SubdivisionFactor_def
     renderCubicLoop.simps cubicPoint_def testContext_def testFrustum_def cullSphere_def
     freshBuffer_def vbuf_setup_def newVertexBuffer_def vbuf_vertex_def vbuf_vertex_color_def
     vbuf_begin_def generation_def Let_def upt_rec)

section \<open>Properties of the render entry points\<close>














lemma twoSampleStore_eval: "twoSampleStore = [sampleAt 0, sampleAt 10]"
  by (simp add: twoSampleStore_def addSample_def sampleAt_def segmentExtents_def
        segmentCoeff_def cubicHermiteCoefficients_def)

lemma threeSampleStore_eval: "threeSampleStore = [sampleAt 0, sampleAt 10, sampleAt 20]"
  by (simp add: threeSampleStore_def addSample_def sampleAt_def segmentExtents_def
        segmentCoeff_def cubicHermiteCoefficients_def)

lemmas render_eval =
  render_range_def render_range_loop.simps render_range_body_def render_close_def
  renderFaded_def renderFaded_loop.simps renderFaded_body_def
  findStartSample.simps sampleAt_def identityTransform_def testNormals_def
  cubicHermiteCoefficients_def std_clamp_def
  renderCubic_def renderCubicLoop.simps renderCubicFaded_def renderCubicFadedLoop.simps
  InvSubdivisionFactor_def SubdivisionFactor_def cubicPoint_def cullSphere_def
  freshBuffer_def vbuf_setup_def newVertexBuffer_def vbuf_vertex_def vbuf_vertex_color_def
  vbuf_begin_def vbuf_end_def vbuf_end_strip_def vbuf_flush_def vbuf_finish_def
  vbuf_setColor_def vbuf_createVertexBuffer_def drawStrip_def Let_def







text \<open>
  Claim C5, as amended.  The time-range \<^verbatim>\<open>render\<close> and \<^verbatim>\<open>renderFaded\<close>, called on an
  empty sample store or with a time range entirely outside the stored range
  (\<open>endTime \<le>\<close> first sample time, or \<open>startTime \<ge>\<close> last sample time), return at once:
  no \<^verbatim>\<open>renderCubic\<close> call, the vertex buffer untouched, no draw submission.
\<close>

theorem render_outside_range_noop:
  "m_samples = [] \<or> endTime \<le> sample_t (hd m_samples) \<or> startTime \<ge> sample_t (last m_samples) \<Longrightarrow>
   render_range m_samples modelview nearZ farZ viewFrustumPlaneNormals subdivisionThreshold
       startTime endTime col lat vb = ([], Some vb) \<and>
   renderFaded m_samples modelview nearZ farZ viewFrustumPlaneNormals subdivisionThreshold
       startTime endTime col fadeStartTime fadeEndTime lat vb = ([], Some vb) \<and>
   newDraws vb (render_range m_samples modelview nearZ farZ viewFrustumPlaneNormals
       subdivisionThreshold startTime endTime col lat vb) = Some 0 \<and>
   newDraws vb (renderFaded m_samples modelview nearZ farZ viewFrustumPlaneNormals
       subdivisionThreshold startTime endTime col fadeStartTime fadeEndTime lat vb) = Some 0"
  by (simp add: render_range_def renderFaded_def)

theorem render_outside_range_noop_witness:
  "(20 :: real) \<ge> sample_t (last threeSampleStore) \<and>
   render_range threeSampleStore identityTransform (-1) (-100) testNormals 1 20 30
       (1, 1, 1, 1) False freshBuffer = ([], Some freshBuffer) \<and>
   renderFaded [] identityTransform (-1) (-100) testNormals 1 0 30
       (1, 1, 1, 1) 0 30 False freshBuffer = ([], Some freshBuffer)"
proof -
  have h: "threeSampleStore = [] \<or> (30 :: real) \<le> sample_t (hd threeSampleStore) \<or>
           (20 :: real) \<ge> sample_t (last threeSampleStore)"
    unfolding threeSampleStore_eval by (simp add: sampleAt_def)
  have l: "(20 :: real) \<ge> sample_t (last threeSampleStore)"
    unfolding threeSampleStore_eval by (simp add: sampleAt_def)
  have h2: "([] :: CurvePlotSample list) = [] \<or> (30 :: real) \<le> sample_t (hd []) \<or>
            (0 :: real) \<ge> sample_t (last [])"
    by simp
  show ?thesis
    using l
      render_outside_range_noop [OF h, where modelview = identityTransform and nearZ = "-1"
        and farZ = "-100" and viewFrustumPlaneNormals = testNormals
        and subdivisionThreshold = 1 and col = "(1, 1, 1, 1)" and lat = False
        and vb = freshBuffer]
      render_outside_range_noop [OF h2, where modelview = identityTransform and nearZ = "-1"
        and farZ = "-100" and viewFrustumPlaneNormals = testNormals
        and subdivisionThreshold = 1 and col = "(1, 1, 1, 1)" and lat = False
        and vb = freshBuffer and fadeStartTime = 0 and fadeEndTime = 30]
    by simp
qed

text \<open>
  The claim as worded fails for \<open>startTime = endTime\<close> inside the stored range: with
  samples at the times 0 and 10 and both times 5, the time-range \<^verbatim>\<open>render\<close> submits one
  draw (a strip of nine coincident points).
\<close>

theorem render_equal_times_draws_counterexample:
  "newDraws freshBuffer
     (render_range twoSampleStore identityTransform (-1) (-100) testNormals 1 5 5
        (1, 1, 1, 1) False freshBuffer) = Some 1"
  unfolding twoSampleStore_eval by (simp add: render_eval)

text \<open>
  The full-range \<^verbatim>\<open>render\<close> on an empty store does not return at once either: it reads
  \<^verbatim>\<open>m_samples[0]\<close> first.
\<close>

lemma render_full_empty_store:
  "render_full [] modelview nearZ farZ viewFrustumPlaneNormals subdivisionThreshold col lat vb
     = Inl ReadPastEnd"
  by (simp add: render_full_def)

end
